theory Spec2Isabelle
  imports Complex_Main "HOL-Library.Monad_Syntax"
begin

section \<open>Data model\<close>

text \<open>
  The numbers of the source are JavaScript numbers. They are modelled as \<^typ>\<open>real\<close>:
  rounding, \<open>NaN\<close> and the infinities are outside the model. Where the source would go
  on with \<open>undefined\<close> as a number (a missing array element), with \<open>NaN\<close> or with an
  infinity, the model returns \<open>None\<close>.

  \<open>interface Position { x; y }\<close>, \<open>interface Size { width; height }\<close>,
  \<open>type Box = Position & Size\<close>. The fields \<open>width\<close> and \<open>height\<close> of a box are
  written \<open>Box.width\<close> and \<open>Box.height\<close>.
\<close>

record Position =
  x :: real
  y :: real

record Box = Position +
  width :: real
  height :: real

record Size =
  width :: real
  height :: real

section \<open>Aspect-ratio fitting\<close>

text \<open>
  \<open>getFittingRectangle\<close> (lines 774 to 797). The optional parameter
  \<open>preserveAspectRatio?: string\<close> is a \<^typ>\<open>string option\<close>. \<open>fittingOffset\<close> is the
  \<open>switch\<close> of lines 782 to 795, case by case in the order of the source. Where the
  source divides by zero, and goes on with an infinity or \<open>NaN\<close>, the model returns
  \<open>None\<close>.
\<close>

definition fittingOffset :: "string option \<Rightarrow> real \<Rightarrow> real \<Rightarrow> real \<times> real" where
  "fittingOffset preserveAspectRatio dx dy =
     (if preserveAspectRatio = Some ''xMinYMin'' then (0, 0)
      else if preserveAspectRatio = Some ''xMidYMin'' then (dx / 2, 0)
      else if preserveAspectRatio = Some ''xMaxYMin'' then (dx, dy / 2)
      else if preserveAspectRatio = Some ''xMinYMid'' then (0, dy)
      else if preserveAspectRatio = Some ''xMaxYMid'' then (dx, dy / 2)
      else if preserveAspectRatio = Some ''xMinYMax'' then (0, dy)
      else if preserveAspectRatio = Some ''xMidYMax'' then (dx / 2, dy)
      else if preserveAspectRatio = Some ''xMaxYMax'' then (dx, dy)
      else (dx / 2, dy / 2))"

definition getFittingRectangle ::
  "real \<Rightarrow> real \<Rightarrow> real \<Rightarrow> real \<Rightarrow> string option \<Rightarrow> Box option" where
  "getFittingRectangle originalWidth originalHeight targetWidth targetHeight preserveAspectRatio =
     (if preserveAspectRatio = Some ''none''
      then Some \<lparr>x = 0, y = 0, Box.width = targetWidth, Box.height = targetHeight\<rparr>
      else if originalHeight = 0 \<or> targetHeight = 0 then None
      else
        let originalRatio = originalWidth / originalHeight;
            targetRatio = targetWidth / targetHeight
        in if \<not> targetRatio \<ge> originalRatio \<and> originalRatio = 0 then None
           else
             let w = (if targetRatio > originalRatio then originalRatio * targetHeight
                      else targetWidth);
                 h = (if targetRatio \<ge> originalRatio then targetHeight
                      else targetWidth / originalRatio);
                 dx = targetWidth - w;
                 dy = targetHeight - h;
                 (ox, oy) = fittingOffset preserveAspectRatio dx dy
             in Some \<lparr>x = ox, y = oy, Box.width = w, Box.height = h\<rparr>)"

text \<open>The nine alignment tokens that the \<open>switch\<close> names.\<close>

definition alignmentTokens :: "string list" where
  "alignmentTokens =
     [''xMinYMin'', ''xMidYMin'', ''xMaxYMin'', ''xMinYMid'', ''xMaxYMid'',
      ''xMinYMax'', ''xMidYMax'', ''xMaxYMax'', ''xMidYMid'']"

text \<open>The uniform "contain" size that every branch but \<open>none\<close> computes.\<close>

definition containWidth :: "real \<Rightarrow> real \<Rightarrow> real \<Rightarrow> real \<Rightarrow> real" where
  "containWidth ow oh tw th = (if tw / th > ow / oh then (ow / oh) * th else tw)"

definition containHeight :: "real \<Rightarrow> real \<Rightarrow> real \<Rightarrow> real \<Rightarrow> real" where
  "containHeight ow oh tw th = (if tw / th \<ge> ow / oh then th else tw / (ow / oh))"


section \<open>Coordinate converters and the transform composer\<close>

text \<open>
  \<open>interface SVGSizeConverter { point; size }\<close> (lines 28 to 31). The field \<open>size\<close> is
  named \<open>size_conv\<close> here, since \<open>size\<close> is a constant of HOL.
\<close>

record SVGSizeConverter =
  point :: "real \<Rightarrow> real \<Rightarrow> Position"
  size_conv :: "real \<Rightarrow> real \<Rightarrow> Size"

text \<open>
  Modelled from the spec: \<open>degreesToRadians\<close> is imported from \<open>./rotations\<close>, which is
  not among the sources. The spec says of it only that angles are given in degrees and
  converted to radians before use.
\<close>

definition degreesToRadians :: "real \<Rightarrow> real" where
  "degreesToRadians degree = degree * pi / 180"

text \<open>
  \<open>transform\<close> (lines 345 to 417). The result carries the converter and the lines written
  by \<open>console.log\<close>. An array pattern such as \<open>[dx, dy = dx] = args\<close> is a \<open>case\<close> on the
  list; where the source goes on with \<open>undefined\<close> for a missing first argument (and so
  with \<open>NaN\<close> coordinates) the model returns \<open>None\<close>, and so it does where the tangent
  of a skew has no value among the reals.
\<close>

function transform ::
  "SVGSizeConverter \<Rightarrow> string \<Rightarrow> real list \<Rightarrow> (SVGSizeConverter \<times> string list) option" where
  "transform converter name args =
    (if name = ''scaleX'' then
       (case args of [] \<Rightarrow> None | a # _ \<Rightarrow> transform converter ''scale'' [a, 0])
     else if name = ''scaleY'' then
       (case args of [] \<Rightarrow> None | a # _ \<Rightarrow> transform converter ''scale'' [0, a])
     else if name = ''scale'' then
       (case args of
          [] \<Rightarrow> None
        | xScale # rest \<Rightarrow>
            let yScale = (case rest of [] \<Rightarrow> xScale | v # _ \<Rightarrow> v) in
            Some (\<lparr>point = (\<lambda>px py. point converter (px * xScale) (py * yScale)),
                   size_conv = (\<lambda>w h. size_conv converter (w * xScale) (h * yScale))\<rparr>, []))
     else if name = ''translateX'' then
       (case args of [] \<Rightarrow> None | a # _ \<Rightarrow> transform converter ''translate'' [a, 0])
     else if name = ''translateY'' then
       (case args of [] \<Rightarrow> None | a # _ \<Rightarrow> transform converter ''translate'' [0, a])
     else if name = ''translate'' then
       (case args of
          [] \<Rightarrow> None
        | dx # rest \<Rightarrow>
            let dy = (case rest of [] \<Rightarrow> dx | v # _ \<Rightarrow> v) in
            Some (\<lparr>point = (\<lambda>px py. point converter (px + dx) (py + dy)),
                   size_conv = size_conv converter\<rparr>, []))
     else if name = ''rotate'' then
       (if length args > 1 then
          (case args of
             a # cx # rest \<Rightarrow>
               let cy = (case rest of [] \<Rightarrow> cx | v # _ \<Rightarrow> v) in
               (case transform converter ''translate'' [- cx, - cy] of
                  None \<Rightarrow> None
                | Some (t1, l1) \<Rightarrow>
                   (case transform t1 ''rotate'' [a] of
                      None \<Rightarrow> None
                    | Some (t2, l2) \<Rightarrow>
                       (case transform t2 ''translate'' [cx, cy] of
                          None \<Rightarrow> None
                        | Some (t3, l3) \<Rightarrow> Some (t3, l1 @ l2 @ l3))))
           | _ \<Rightarrow> None)
        else
          (case args of
             [] \<Rightarrow> None
           | a # _ \<Rightarrow>
               let angle = degreesToRadians a in
               Some (\<lparr>point = (\<lambda>px py. point converter (px * cos angle - py * sin angle)
                                                         (py * cos angle + px * sin angle)),
                      size_conv = (\<lambda>w h. size_conv converter (w * cos angle - h * sin angle)
                                                             (h * cos angle + w * sin angle))\<rparr>, [])))
     else if name = ''skewX'' then
       (case args of
          [] \<Rightarrow> None
        | a # _ \<Rightarrow>
            let angle = degreesToRadians a in
            if cos angle = 0 then None
            else Some (\<lparr>point = (\<lambda>px py. point converter ((1 + px) * tan angle) py),
                        size_conv = size_conv converter\<rparr>, []))
     else if name = ''skewY'' then
       (case args of
          [] \<Rightarrow> None
        | a # _ \<Rightarrow>
            let angle = degreesToRadians a in
            if cos angle = 0 then None
            else Some (\<lparr>point = (\<lambda>px py. point converter px ((1 + py) * tan angle)),
                        size_conv = size_conv converter\<rparr>, []))
     else Some (converter, [''transformation unsupported: '' @ name]))"
  by pat_completeness auto
termination
  by (relation "measure (\<lambda>(c, name, args).
      if name \<in> {''scaleX'', ''scaleY'', ''translateX'', ''translateY''}
         \<or> (name = ''rotate'' \<and> length args > 1) then 1 else 0)") auto

declare transform.simps [simp del]

text \<open>The instruction names that have a \<open>case\<close> in the \<open>switch\<close> of \<open>transform\<close>.\<close>

definition supportedTransforms :: "string list" where
  "supportedTransforms =
     [''scaleX'', ''scaleY'', ''scale'', ''translateX'', ''translateY'', ''translate'',
      ''rotate'', ''skewX'', ''skewY'']"

text \<open>
  The loop of \<open>parseAttributes\<close> that applies the parsed instructions (lines 575 to 584):
  \<open>newConverter = transform(newConverter, name, args)\<close> for each instruction in turn.
\<close>

fun applyTransforms ::
  "SVGSizeConverter \<Rightarrow> (string \<times> real list) list \<Rightarrow> (SVGSizeConverter \<times> string list) option" where
  "applyTransforms newConverter [] = Some (newConverter, [])"
| "applyTransforms newConverter ((name, args) # parsed) =
     (case transform newConverter name args of
        None \<Rightarrow> None
      | Some (c, l) \<Rightarrow>
          (case applyTransforms c parsed of
             None \<Rightarrow> None
           | Some (c', l') \<Rightarrow> Some (c', l @ l')))"

text \<open>
  The converter with which \<open>drawSvg\<close> starts (lines 883 to 886): the y axis of the page
  is reverted.
\<close>

definition defaultConverter :: "real \<Rightarrow> SVGSizeConverter" where
  "defaultConverter pageHeight =
     \<lparr>point = (\<lambda>px py. \<lparr>x = px, y = pageHeight - py\<rparr>),
      size_conv = (\<lambda>w h. \<lparr>width = w, height = h\<rparr>)\<rparr>"


section \<open>Geometry and the clipper\<close>

text \<open>
  \<open>Point\<close>, \<open>Segment\<close> and \<open>Rectangle\<close> are classes of \<open>src/utils/elements\<close>, which is
  not among the sources. A \<open>Point\<close> and the coordinates it is built from (\<open>{x, y}\<close>,
  \<open>toCoords()\<close>) are both a \<^typ>\<open>Position\<close>; a segment has its two ends \<open>A\<close> and \<open>B\<close>; a
  rectangle is built from two points, \<open>new Rectangle(p1, p2)\<close>.
\<close>

record Segment =
  A :: Position
  B :: Position

record Rectangle =
  corner1 :: Position
  corner2 :: Position

text \<open>
  The functions that the source imports from \<open>src/utils/elements\<close>,
  \<open>src/utils/intersections\<close> and \<open>src/utils/maths\<close> (lines 13 to 15) are not among the
  sources either. The functions of this file take them as a parameter:
  \<open>rect.orthoProjection(dot)\<close>, \<open>distance(A, B)\<close>, \<open>isEqual(a, b)\<close> on numbers,
  \<open>getIntersections([rect, line])\<close>, \<open>distanceCoords(A, B)\<close> and \<open>P.isEqual(Q)\<close> on points.
\<close>

record geometry =
  orthoProjection :: "Rectangle \<Rightarrow> Position \<Rightarrow> Position"
  distance :: "Position \<Rightarrow> Position \<Rightarrow> real"
  isEqual :: "real \<Rightarrow> real \<Rightarrow> bool"
  getIntersections :: "Rectangle \<Rightarrow> Segment \<Rightarrow> Position list"
  distanceCoords :: "Position \<Rightarrow> Position \<Rightarrow> real"
  pointIsEqual :: "Position \<Rightarrow> Position \<Rightarrow> bool"

text \<open>\<open>isCoordinateInsideTheRect\<close> (line 81).\<close>

definition isCoordinateInsideTheRect :: "geometry \<Rightarrow> Position \<Rightarrow> Rectangle \<Rightarrow> bool" where
  "isCoordinateInsideTheRect G dot rect =
     isEqual G 0 (distance G dot (orthoProjection G rect dot))"

text \<open>
  \<open>getInnerSegment\<close> (lines 106 to 133); \<open>None\<close> is the \<open>undefined\<close> of the bare
  \<open>return\<close>. \<open>Array.prototype.sort\<close> sorts the array in place and is stable, and the
  comparator \<open>distanceCoords(start, p1) - distanceCoords(start, p2)\<close> orders by the
  distance to \<open>start\<close>: that is \<^const>\<open>sort_key\<close>. The second sort works on the array
  as the first one left it. \<open>[0]\<close> is read from an array that is not empty.
\<close>

definition getInnerSegment ::
  "geometry \<Rightarrow> Position \<Rightarrow> Position \<Rightarrow> Rectangle \<Rightarrow> Segment option" where
  "getInnerSegment G start end rect =
     (let isStartInside = isCoordinateInsideTheRect G start rect;
          isEndInside = isCoordinateInsideTheRect G end rect
      in if isEndInside \<and> isStartInside then Some \<lparr>A = start, B = end\<rparr>
         else
           let line = \<lparr>A = start, B = end\<rparr>;
               intersection = getIntersections G rect line
           in if length intersection = 0 then None
              else
                let sorted1 = (if \<not> isStartInside
                               then sort_key (distanceCoords G start) intersection
                               else intersection);
                    resultLineStart = (if \<not> isStartInside then hd sorted1 else start);
                    sorted2 = (if \<not> isEndInside
                               then sort_key (distanceCoords G end) sorted1
                               else sorted1);
                    resultLineEnd = (if \<not> isEndInside then hd sorted2 else end)
                in Some \<lparr>A = resultLineStart, B = resultLineEnd\<rparr>)"

text \<open>
  The spec's words for the choice that the sort makes: the candidate nearest the endpoint,
  the first one found among those at the least distance. \<open>far\<close> is the distance to the
  endpoint.
\<close>

fun firstNearest :: "(Position \<Rightarrow> real) \<Rightarrow> Position list \<Rightarrow> Position option" where
  "firstNearest far [] = None"
| "firstNearest far (p # ps) =
     Some (fold (\<lambda>q best. if far q < far best then q else best) ps p)"

subsection \<open>A plane geometry for concrete inputs\<close>

text \<open>
  Modelled from the spec: the helpers of \<open>src/utils\<close> that \<^typ>\<open>geometry\<close> stands for.
  The spec says that the rectangle has an orthogonal projection, that a point is inside
  iff its distance to its projection is zero, and that the intersections are those of the
  segment with the boundary of the rectangle. Here the rectangle is the axis-parallel one
  spanned by its two corners, the projection of a point is the nearest point of that
  rectangle, distances are Euclidean, numbers and points are equal when they are the same,
  and the intersections are the crossing points of the segment with the four edges, edge
  by edge (an edge parallel to the segment gives none). These definitions are used only to
  evaluate the functions above at concrete inputs.
\<close>

definition clampBetween :: "real \<Rightarrow> real \<Rightarrow> real \<Rightarrow> real" where
  "clampBetween a b v = max (min a b) (min (max a b) v)"

definition planeOrthoProjection :: "Rectangle \<Rightarrow> Position \<Rightarrow> Position" where
  "planeOrthoProjection rect p =
     \<lparr>x = clampBetween (x (corner1 rect)) (x (corner2 rect)) (x p),
      y = clampBetween (y (corner1 rect)) (y (corner2 rect)) (y p)\<rparr>"

definition planeDistance :: "Position \<Rightarrow> Position \<Rightarrow> real" where
  "planeDistance p q = sqrt ((x q - x p)\<^sup>2 + (y q - y p)\<^sup>2)"

definition rectangleEdges :: "Rectangle \<Rightarrow> Segment list" where
  "rectangleEdges rect =
     (let xa = x (corner1 rect); ya = y (corner1 rect);
          xb = x (corner2 rect); yb = y (corner2 rect)
      in [\<lparr>A = \<lparr>x = xa, y = ya\<rparr>, B = \<lparr>x = xb, y = ya\<rparr>\<rparr>,
          \<lparr>A = \<lparr>x = xb, y = ya\<rparr>, B = \<lparr>x = xb, y = yb\<rparr>\<rparr>,
          \<lparr>A = \<lparr>x = xb, y = yb\<rparr>, B = \<lparr>x = xa, y = yb\<rparr>\<rparr>,
          \<lparr>A = \<lparr>x = xa, y = yb\<rparr>, B = \<lparr>x = xa, y = ya\<rparr>\<rparr>])"

definition segmentCrossing :: "Segment \<Rightarrow> Segment \<Rightarrow> Position list" where
  "segmentCrossing s e =
     (let rx = x (B s) - x (A s); ry = y (B s) - y (A s);
          qx = x (B e) - x (A e); qy = y (B e) - y (A e);
          ox = x (A e) - x (A s); oy = y (A e) - y (A s);
          den = rx * qy - ry * qx
      in if den = 0 then []
         else
           let t = (ox * qy - oy * qx) / den;
               u = (ox * ry - oy * rx) / den
           in if 0 \<le> t \<and> t \<le> 1 \<and> 0 \<le> u \<and> u \<le> 1
              then [\<lparr>x = x (A s) + t * rx, y = y (A s) + t * ry\<rparr>]
              else [])"

definition planeIntersections :: "Rectangle \<Rightarrow> Segment \<Rightarrow> Position list" where
  "planeIntersections rect s = concat (map (segmentCrossing s) (rectangleEdges rect))"

definition planeGeometry :: geometry where
  "planeGeometry =
     \<lparr>orthoProjection = planeOrthoProjection,
      distance = planeDistance,
      isEqual = (\<lambda>a b. a = b),
      getIntersections = planeIntersections,
      distanceCoords = planeDistance,
      pointIsEqual = (\<lambda>p q. p = q)\<rparr>"

text \<open>
  The target rectangle as \<open>drawSvg\<close> builds it (line 892), for the box at \<open>(0, 100)\<close> of
  width and height 100.
\<close>

definition svgRect100 :: Rectangle where
  "svgRect100 = \<lparr>corner1 = \<lparr>x = 0, y = 100\<rparr>, corner2 = \<lparr>x = 0 + 100, y = 100 - 100\<rparr>\<rparr>"


section \<open>Resolved elements and the draw dispatcher\<close>

text \<open>
  Modelled from the spec: \<open>Color\<close>, \<open>LineCapStyle\<close>, \<open>LineJoinStyle\<close> and \<open>Degrees\<close> are
  imported from \<open>./colors\<close>, \<open>./operators\<close> and \<open>./rotations\<close>, which are not among the
  sources. A colour is an RGB triple; the cap and join styles are the values of the two
  lookup tables (lines 83 to 93); \<open>Degrees\<close> is the object
  \<open>{ angle, type: RotationTypes.Degrees }\<close> that line 556 builds.
\<close>

datatype Color = RGB real real real

datatype LineCapStyle = Butt | RoundCap | Projecting

datatype LineJoinStyle = Bevel | Miter | RoundJoin

datatype Degrees = Degrees (angle: real)

text \<open>
  \<open>element.svgAttributes\<close>, of type \<open>InheritedAttributes & SVGAttributes\<close> (lines 35 to
  71). An optional field is an \<open>option\<close>. The fields \<open>x\<close>, \<open>y\<close>, \<open>width\<close>, \<open>height\<close> and
  \<open>rotate\<close> carry the suffix \<open>_attr\<close>: the first four are fields of \<^typ>\<open>Position\<close> and
  \<^typ>\<open>Size\<close>, and \<open>rotate\<close> is a constant of HOL.
\<close>

record svgAttributes =
  width_attr :: real
  height_attr :: real
  fill :: "Color option"
  fillOpacity :: "real option"
  stroke :: "Color option"
  strokeWidth :: "real option"
  strokeOpacity :: "real option"
  strokeLineCap :: "LineCapStyle option"
  strokeLineJoin :: "LineJoinStyle option"
  fontFamily :: "string option"
  fontSize :: "real option"
  rotation :: "Degrees option"
  rotate_attr :: "Degrees option"
  scale_attr :: "real option"
  skewX :: "Degrees option"
  skewY :: "Degrees option"
  x_attr :: "real option"
  y_attr :: "real option"
  cx :: "real option"
  cy :: "real option"
  r :: "real option"
  rx :: "real option"
  ry :: "real option"
  x1 :: "real option"
  y1 :: "real option"
  x2 :: "real option"
  y2 :: "real option"
  d :: "string option"
  src :: "string option"
  textAnchor :: "string option"
  preserveAspectRatio :: "string option"

text \<open>
  A template literal is the list of its pieces: \<open>Str s\<close> is literal text and \<open>Num v\<close>
  stands for the decimal text of the number \<open>v\<close>.
\<close>

datatype piece = Str string | Num real

text \<open>
  The calls on the page, with the options of each call in the order in which the source
  writes them. A font of the document is a handle with a name; the image of \<open>drawImage\<close>
  is left out of the call.
\<close>

datatype PDFFont = PDFFont string

datatype DrawCall =
    DrawText (text_text: string) (text_x: real) (text_y: real) (text_font: "PDFFont option")
      (text_size: real) (text_color: "Color option") (text_opacity: "real option")
      (text_rotate: "Degrees option")
  | DrawLine (line_start: Position) (line_end: Position) (line_thickness: "real option")
      (line_color: "Color option") (line_opacity: "real option")
      (line_lineCap: "LineCapStyle option")
  | DrawSvgPath (path_data: "piece list") (path_x: real) (path_y: real)
      (path_borderColor: "Color option") (path_borderWidth: "real option")
      (path_borderOpacity: "real option") (path_borderLineCap: "LineCapStyle option")
      (path_color: "Color option") (path_opacity: "real option") (path_scale: "real option")
      (path_rotate: "Degrees option")
  | DrawImage (image_x: real) (image_y: real) (image_width: real) (image_height: real)
      (image_opacity: "real option") (image_xSkew: "Degrees option")
      (image_ySkew: "Degrees option") (image_rotate: "Degrees option")
  | DrawRectangle (rect_x: "real option") (rect_y: real) (rect_width: real) (rect_height: real)
      (rect_borderColor: "Color option") (rect_borderWidth: "real option")
      (rect_borderOpacity: "real option") (rect_borderLineCap: "LineCapStyle option")
      (rect_color: "Color option") (rect_opacity: "real option")
      (rect_xSkew: "Degrees option") (rect_ySkew: "Degrees option")
      (rect_rotate: "Degrees option")
  | DrawEllipse (ellipse_x: "real option") (ellipse_y: "real option")
      (ellipse_xScale: "real option") (ellipse_yScale: "real option")
      (ellipse_borderColor: "Color option") (ellipse_borderWidth: "real option")
      (ellipse_borderOpacity: "real option") (ellipse_borderLineCap: "LineCapStyle option")
      (ellipse_color: "Color option") (ellipse_opacity: "real option")
      (ellipse_rotate: "Degrees option")

text \<open>
  \<open>Array.prototype.join\<close> on the pieces: the separator goes between two neighbours.
\<close>

fun joinWith :: "'a \<Rightarrow> 'a list \<Rightarrow> 'a list" where
  "joinWith sep [] = []"
| "joinWith sep [v] = [v]"
| "joinWith sep (v # w # vs) = v # sep # joinWith sep (w # vs)"

text \<open>\<open>v || 0\<close> on an optional number.\<close>

definition orZero :: "real option \<Rightarrow> real" where
  "orZero v = (case v of None \<Rightarrow> 0 | Some n \<Rightarrow> n)"


text \<open>
  The \<open>line\<close> runner (lines 166 to 187). The source asserts with \<open>!\<close> that the four
  coordinates are there; without one of them it goes on with \<open>undefined\<close>, and the model
  returns \<open>None\<close>. The result is the list of the calls made on the page.
\<close>

definition runners_line :: "geometry \<Rightarrow> Rectangle \<Rightarrow> svgAttributes \<Rightarrow> DrawCall list option" where
  "runners_line G svgRect element =
     (case (x1 element, y1 element, x2 element, y2 element) of
        (Some sx, Some sy, Some ex, Some ey) \<Rightarrow>
          (case getInnerSegment G \<lparr>x = sx, y = sy\<rparr> \<lparr>x = ex, y = ey\<rparr> svgRect of
             None \<Rightarrow> Some []
           | Some line \<Rightarrow>
               Some [DrawLine (A line) (B line) (strokeWidth element) (stroke element)
                       (strokeOpacity element) (strokeLineCap element)])
      | _ \<Rightarrow> None)"

text \<open>
  \<open>handlePath\<close> (lines 200 to 256), with the \<open>basePoint\<close> and the \<open>svgRect\<close> of its
  closure as parameters. The result is the pair of the fields \<open>point\<close> and \<open>command\<close>.
  Where \<open>params[0]\<close> or \<open>params[1]\<close> is missing the source goes on with \<open>undefined\<close>; the
  model returns \<open>None\<close>.
\<close>

definition normalizePoint :: "Position \<Rightarrow> Position \<Rightarrow> Position" where
  "normalizePoint basePoint p = \<lparr>x = x p - x basePoint, y = y p - y basePoint\<rparr>"

definition handlePath ::
  "geometry \<Rightarrow> Rectangle \<Rightarrow> Position \<Rightarrow> Position \<Rightarrow> string \<Rightarrow> real list
     \<Rightarrow> (Position \<times> piece list) option" where
  "handlePath G svgRect basePoint currentPoint command params =
     (if command = ''m'' \<or> command = ''M'' then
        (case params of
           p0 # p1 # _ \<Rightarrow>
             let nextPoint = \<lparr>x = x basePoint + p0, y = y basePoint + p1\<rparr>
             in Some (nextPoint, [Str command, Num p0, Str '','', Num p1])
         | _ \<Rightarrow> None)
      else if command = ''l'' \<or> command = ''L'' then
        (case params of
           p0 # p1 # _ \<Rightarrow>
             let isLocalInstruction = (command = ''l'');
                 nextPoint =
                   \<lparr>x = (if isLocalInstruction then x currentPoint else x basePoint) + p0,
                    y = (if isLocalInstruction then y currentPoint else y basePoint) + p1\<rparr>;
                 normalizedNext = normalizePoint basePoint nextPoint;
                 endPoint = \<lparr>x = x nextPoint, y = y nextPoint\<rparr>;
                 startPoint = \<lparr>x = x currentPoint, y = y currentPoint\<rparr>;
                 moveToNext =
                   (if isLocalInstruction
                    then [Str ''M'', Num (x normalizedNext), Str '','', Num (y normalizedNext)]
                    else [Str ''M'', Num p0, Str '','', Num p1])
             in (case getInnerSegment G startPoint endPoint svgRect of
                   None \<Rightarrow> Some (nextPoint, moveToNext)
                 | Some result \<Rightarrow>
                     let isStartInside = pointIsEqual G (A result) startPoint;
                         isEndInside = pointIsEqual G (B result) endPoint;
                         endPoint' = normalizePoint basePoint (B result);
                         startPoint' = normalizePoint basePoint (A result);
                         startInstruction =
                           (if isStartInside then []
                            else [Str ''M'', Num (x startPoint'), Str '','', Num (y startPoint')]);
                         endInstruction = (if isEndInside then [] else moveToNext)
                     in Some (nextPoint,
                          startInstruction
                          @ [Str '' L'', Num (x endPoint'), Str '','', Num (y endPoint'), Str '' '']
                          @ endInstruction @ [Str '' '']))
         | _ \<Rightarrow> None)
      else
        Some (currentPoint,
              [Str command, Str '' ''] @ joinWith (Str '','') (map Num params)))"

text \<open>
  The loop of the \<open>path\<close> runner over the commands of the path data (lines 259 to 271),
  from the commands as the two regular expressions of lines 258 to 262 cut them: a letter
  and its numbers. Each command starts at the point that \<open>handlePath\<close> returned for the
  command before it; the texts are joined with a space.
\<close>

fun pathCommands ::
  "geometry \<Rightarrow> Rectangle \<Rightarrow> Position \<Rightarrow> Position \<Rightarrow> (string \<times> real list) list
     \<Rightarrow> piece list list option" where
  "pathCommands G svgRect basePoint currentPoint [] = Some []"
| "pathCommands G svgRect basePoint currentPoint ((letter, params) # commands) =
     (case handlePath G svgRect basePoint currentPoint letter params of
        None \<Rightarrow> None
      | Some (nextPoint, command) \<Rightarrow>
          (case pathCommands G svgRect basePoint nextPoint commands of
             None \<Rightarrow> None
           | Some rest \<Rightarrow> Some (command # rest)))"








section \<open>Attribute resolution\<close>

subsection \<open>Numbers in attribute text\<close>

text \<open>
  Strings are lists of 8-bit characters. \<open>parseFloat\<close> and \<open>parseInt\<close> are functions of
  the language: they skip leading white space and read the longest prefix that is a
  decimal literal (\<open>parseFloat\<close>: sign, then \<open>Infinity\<close> or digits, fraction, exponent)
  or a run of decimal digits with a sign (\<open>parseInt\<close> with radix 10). The result of
  \<open>parseFloat\<close> is \<open>NaN\<close>, a real number, or an infinity with its sign (\<open>True\<close> for the
  negative one); for \<open>parseInt\<close>, \<open>None\<close> is \<open>NaN\<close>. Numbers are real numbers: a
  decimal literal stands for the number that it writes, without the rounding to a double
  and without the overflow of a literal that is beyond the largest double.
\<close>

datatype parsed = NaN | Finite real | Infinite bool

definition isDigit :: "char \<Rightarrow> bool" where
  "isDigit c = (48 \<le> (of_char c :: nat) \<and> (of_char c :: nat) \<le> 57)"

definition isWhiteSpace :: "char \<Rightarrow> bool" where
  "isWhiteSpace c = ((of_char c :: nat) \<in> {9, 10, 11, 12, 13, 32, 160})"

definition digitsValue :: "string \<Rightarrow> nat" where
  "digitsValue ds = foldl (\<lambda>acc c. 10 * acc + (of_char c - 48)) 0 ds"

definition signOf :: "string \<Rightarrow> int \<times> string" where
  "signOf s =
     (case s of
        [] \<Rightarrow> (1, [])
      | c # cs \<Rightarrow> if c = CHR ''-'' then (- 1, cs) else if c = CHR ''+'' then (1, cs) else (1, s))"

definition exponentPart :: "string \<Rightarrow> int" where
  "exponentPart s =
     (case s of
        [] \<Rightarrow> 0
      | c # cs \<Rightarrow>
          if c = CHR ''e'' \<or> c = CHR ''E'' then
            (let (sg, ds) = signOf cs; es = takeWhile isDigit ds
             in if es = [] then 0 else sg * int (digitsValue es))
          else 0)"

definition parseFloat :: "string \<Rightarrow> parsed" where
  "parseFloat s =
     (let (sg, u) = signOf (dropWhile isWhiteSpace s);
          ip = takeWhile isDigit u;
          r1 = dropWhile isDigit u;
          hasDot = (case r1 of [] \<Rightarrow> False | c # _ \<Rightarrow> c = CHR ''.'');
          fp = (if hasDot then takeWhile isDigit (tl r1) else []);
          r2 = (if hasDot then dropWhile isDigit (tl r1) else r1)
      in if take 8 u = ''Infinity'' then Infinite (sg < 0)
         else if ip = [] \<and> fp = [] then NaN
         else Finite (real_of_int sg
                      * (real (digitsValue ip) + real (digitsValue fp) / 10 ^ length fp)
                      * 10 powi exponentPart r2))"


text \<open>
  An object with string values (\<open>Attributes\<close>, \<open>SVGStyle\<close>) is an association list; a
  string is truthy when it is there and not empty.
\<close>

type_synonym Attributes = "(string \<times> string) list"

type_synonym SVGStyle = "(string \<times> string) list"

definition truthy :: "string option \<Rightarrow> bool" where
  "truthy v = (v \<noteq> None \<and> v \<noteq> Some [])"

text \<open>
  \<open>styleOrAttribute\<close> (lines 419 to 428) and \<open>parseFloatValue\<close> (lines 838 to 844).
  The result of \<open>parseFloatValue\<close> is \<open>Some None\<close> for \<open>undefined\<close> and \<open>Some (Some n)\<close>
  for the number \<open>n\<close>; where \<open>parseFloat\<close> reads an infinity, the result is no real
  number and no \<open>undefined\<close>, and the model returns \<open>None\<close>.
\<close>

definition styleOrAttribute ::
  "Attributes \<Rightarrow> SVGStyle \<Rightarrow> string \<Rightarrow> string option \<Rightarrow> string option" where
  "styleOrAttribute attributes style attribute def =
     (let v = (if truthy (map_of style attribute) then map_of style attribute
               else map_of attributes attribute)
      in if \<not> truthy v \<and> def \<noteq> None then def else v)"

definition parseFloatValue :: "string option \<Rightarrow> real \<Rightarrow> real option option" where
  "parseFloatValue v reference =
     (case v of
        None \<Rightarrow> Some None
      | Some s \<Rightarrow>
          if s = [] then Some None
          else (case parseFloat s of
                  NaN \<Rightarrow> Some None
                | Infinite negative \<Rightarrow> None
                | Finite n \<Rightarrow>
                    if last s = CHR ''%'' then Some (Some (n * reference / 100))
                    else Some (Some n)))"

text \<open>A list of results, when none of them is \<open>None\<close>.\<close>

fun allSome :: "'a option list \<Rightarrow> 'a list option" where
  "allSome [] = Some []"
| "allSome (v # vs) =
     (case v of
        None \<Rightarrow> None
      | Some a \<Rightarrow> (case allSome vs of None \<Rightarrow> None | Some as \<Rightarrow> Some (a # as)))"

subsection \<open>Stroke width\<close>

text \<open>
  The stroke width in \<open>parseAttributes\<close>: the raw text (line 489), the cascade
  \<open>parseFloatValue(strokeWidthRaw) ?? inherited.strokeWidth\<close> (line 514), and the
  conversion and clamp under \<open>if (newInherited.strokeWidth)\<close> (lines 728 to 731), which a
  width of zero does not enter. \<open>newConverter\<close> is the converter of the element at that
  point of the function. The result is \<open>Some None\<close> when no stroke width is resolved, and
  \<open>None\<close> when the text of the attribute reads as an infinity.
\<close>

definition strokeWidthCascade ::
  "Attributes \<Rightarrow> SVGStyle \<Rightarrow> real option \<Rightarrow> real option option" where
  "strokeWidthCascade attributes style inheritedStrokeWidth =
     (let strokeWidthRaw = styleOrAttribute attributes style ''stroke-width'' None
      in case parseFloatValue strokeWidthRaw 1 of
           None \<Rightarrow> None
         | Some (Some n) \<Rightarrow> Some (Some n)
         | Some None \<Rightarrow> Some inheritedStrokeWidth)"

definition parseAttributes_strokeWidth ::
  "SVGSizeConverter \<Rightarrow> Attributes \<Rightarrow> SVGStyle \<Rightarrow> real option \<Rightarrow> real option option" where
  "parseAttributes_strokeWidth newConverter attributes style inheritedStrokeWidth =
     (case strokeWidthCascade attributes style inheritedStrokeWidth of
        None \<Rightarrow> None
      | Some None \<Rightarrow> Some None
      | Some (Some w) \<Rightarrow>
          if w = 0 then Some (Some w)
          else
            let result = size_conv newConverter w w
            in Some (Some (max (min \<bar>width result\<bar> \<bar>height result\<bar>) 1)))"

subsection \<open>Coordinate pairs of the path data\<close>

text \<open>
  \<open>toLowerCase\<close> on a letter of the ASCII alphabet, which is what the regular expression
  of line 668 lets through.
\<close>

definition toLowerCase :: "char \<Rightarrow> char" where
  "toLowerCase c =
     (if 65 \<le> (of_char c :: nat) \<and> (of_char c :: nat) \<le> 90
      then char_of ((of_char c :: nat) + 32) else c)"

text \<open>
  The function that \<open>parseAttributes\<close> passes to \<open>replace\<close> for the commands \<open>l\<close>, \<open>t\<close>,
  \<open>m\<close>, \<open>q\<close>, \<open>c\<close> (lines 669 to 690), from the letter of the command and, for each match
  of the inner regular expression, its two numerals \<open>a\<close> and \<open>b\<close>. \<open>converter\<close> is the
  converter that the function was called with, and \<open>(xOrigin, yOrigin)\<close> is
  \<open>converter.point(0, 0)\<close> (line 622). The result is \<open>None\<close> when one of the numerals
  reads as an infinity.
\<close>

definition parseAttributes_pathPairs ::
  "SVGSizeConverter \<Rightarrow> real \<Rightarrow> real \<Rightarrow> char \<Rightarrow> (string \<times> string) list
     \<Rightarrow> piece list option" where
  "parseAttributes_pathPairs converter inheritedWidth inheritedHeight letter coords =
     (let xOrigin = x (point converter 0 0);
          yOrigin = y (point converter 0 0)
      in map_option (\<lambda>texts. Str [letter] # concat (joinWith [Str '' ''] texts))
           (allSome
              (map (\<lambda>(a, b).
                     case (parseFloatValue (Some a) inheritedWidth,
                           parseFloatValue (Some b) inheritedHeight) of
                       (Some xv, Some yv) \<Rightarrow>
                         let xReal = orZero xv; yReal = orZero yv
                         in Some (if letter = toLowerCase letter
                                  then joinWith (Str '','')
                                         [Num (width (size_conv converter xReal yReal)),
                                          Num (- height (size_conv converter xReal yReal))]
                                  else joinWith (Str '','')
                                         [Num (x (point converter xReal yReal) - xOrigin),
                                          Num (y (point converter xReal yReal) - yOrigin)])
                     | _ \<Rightarrow> None)
                   coords)))"

text \<open>
  The two numbers of each pair (lines 678 and 679):
  \<open>parseFloatValue(a, inherited.width) || 0\<close> and \<open>parseFloatValue(b, inherited.height) || 0\<close>.
\<close>

definition pairValues :: "real \<Rightarrow> real \<Rightarrow> (string \<times> string) list \<Rightarrow> (real \<times> real) list option" where
  "pairValues inheritedWidth inheritedHeight coords =
     allSome
       (map (\<lambda>(a, b).
              case (parseFloatValue (Some a) inheritedWidth,
                    parseFloatValue (Some b) inheritedHeight) of
                (Some xv, Some yv) \<Rightarrow> Some (orZero xv, orZero yv)
              | _ \<Rightarrow> None)
            coords)"


subsection \<open>Transform instructions in attribute text\<close>

text \<open>
  The regular expression \<open>/-?(\d+\.?|\.)\d*/\<close> of lines 554 and 564, as \<open>match\<close> uses it:
  the leftmost match in the text, or none. At a position it matches an optional minus
  sign followed by digits, an optional point and digits, or by a point and digits; every
  part is greedy, and nothing after it can make the matcher give characters back.
\<close>

definition numeralAt :: "string \<Rightarrow> string option" where
  "numeralAt s =
     (let neg = (case s of [] \<Rightarrow> False | c # _ \<Rightarrow> c = CHR ''-'');
          u = (if neg then tl s else s);
          sgn = (if neg then ''-'' else []);
          ds = takeWhile isDigit u;
          r1 = dropWhile isDigit u;
          hasDot = (case r1 of [] \<Rightarrow> False | c # _ \<Rightarrow> c = CHR ''.'')
      in if ds \<noteq> [] then
           Some (sgn @ ds @ (if hasDot then ''.'' @ takeWhile isDigit (tl r1) else []))
         else if hasDot then Some (sgn @ ''.'' @ takeWhile isDigit (tl r1))
         else None)"
















subsection \<open>Transforms given as attributes\<close>


















section \<open>Theorems: aspect-ratio fitting\<close>

lemma fittingOffset_default:
  "tok \<notin> set alignmentTokens \<Longrightarrow> fittingOffset (Some tok) dx dy = (dx / 2, dy / 2)"
  by (simp add: fittingOffset_def alignmentTokens_def)

lemma fittingOffset_absent: "fittingOffset None dx dy = (dx / 2, dy / 2)"
  by (simp add: fittingOffset_def)

text \<open>
  C5. With \<open>preserveAspectRatio = 'none'\<close> the fitting returns the target box at the
  origin, whatever the intrinsic box. With an absent token, or a token that is neither
  \<open>none\<close> nor one of the nine alignment tokens, it returns the contain-fitted box centred
  in both axes (written out for sizes without a zero divisor), which is what \<open>xMidYMid\<close>
  returns. An intrinsic box 100 by 50 in a
  target 200 by 200 gives (0, 0, 200, 200) under \<open>none\<close> and (0, 50, 200, 100) by default.
\<close>

theorem getFittingRectangle_none_and_default:
  "getFittingRectangle ow oh tw th (Some ''none'')
     = Some \<lparr>x = 0, y = 0, Box.width = tw, Box.height = th\<rparr>
   \<and> (ow \<noteq> 0 \<and> oh \<noteq> 0 \<and> th \<noteq> 0 \<longrightarrow>
        getFittingRectangle ow oh tw th None
          = Some \<lparr>x = (tw - containWidth ow oh tw th) / 2,
                  y = (th - containHeight ow oh tw th) / 2,
                  Box.width = containWidth ow oh tw th,
                  Box.height = containHeight ow oh tw th\<rparr>)
   \<and> getFittingRectangle ow oh tw th None = getFittingRectangle ow oh tw th (Some ''xMidYMid'')
   \<and> (tok \<notin> set alignmentTokens \<and> tok \<noteq> ''none'' \<longrightarrow>
        getFittingRectangle ow oh tw th (Some tok) = getFittingRectangle ow oh tw th None)
   \<and> getFittingRectangle 100 50 200 200 (Some ''none'')
     = Some \<lparr>x = 0, y = 0, Box.width = 200, Box.height = 200\<rparr>
   \<and> getFittingRectangle 100 50 200 200 None
     = Some \<lparr>x = 0, y = 50, Box.width = 200, Box.height = 100\<rparr>"
proof -
  have a: "getFittingRectangle ow oh tw th (Some ''none'')
             = Some \<lparr>x = 0, y = 0, Box.width = tw, Box.height = th\<rparr>" for ow oh tw th
    by (simp add: getFittingRectangle_def)
  have b: "getFittingRectangle ow oh tw th None
     = Some \<lparr>x = (tw - containWidth ow oh tw th) / 2,
             y = (th - containHeight ow oh tw th) / 2,
             Box.width = containWidth ow oh tw th, Box.height = containHeight ow oh tw th\<rparr>"
    if "ow \<noteq> 0" "oh \<noteq> 0" "th \<noteq> 0" for ow oh tw th
    using that
    by (auto simp add: getFittingRectangle_def fittingOffset_absent containWidth_def
        containHeight_def Let_def)
  have fo: "fittingOffset None = fittingOffset (Some ''xMidYMid'')"
    by (intro ext) (simp add: fittingOffset_def)
  have c: "getFittingRectangle ow oh tw th None = getFittingRectangle ow oh tw th (Some ''xMidYMid'')"
    by (simp only: getFittingRectangle_def fo) simp
  have d: "getFittingRectangle ow oh tw th (Some tok) = getFittingRectangle ow oh tw th None"
    if "tok \<notin> set alignmentTokens" "tok \<noteq> ''none''"
  proof -
    have "fittingOffset (Some tok) = fittingOffset None"
      using that(1) by (intro ext) (simp add: fittingOffset_default fittingOffset_absent)
    then show ?thesis
      using that(2) by (simp only: getFittingRectangle_def) simp
  qed
  have e: "getFittingRectangle 100 50 200 200 None
     = Some \<lparr>x = 0, y = 50, Box.width = 200, Box.height = 100\<rparr>"
    by (simp add: b containWidth_def containHeight_def)
  show ?thesis using a b c d e by blast
qed

theorem getFittingRectangle_none_and_default_witness:
  "''slice'' \<notin> set alignmentTokens \<and> ''slice'' \<noteq> ''none''
   \<and> (100 :: real) \<noteq> 0 \<and> (50 :: real) \<noteq> 0 \<and> (200 :: real) \<noteq> 0
   \<and> getFittingRectangle 100 50 200 200 None
     = Some \<lparr>x = (200 - containWidth 100 50 200 200) / 2,
             y = (200 - containHeight 100 50 200 200) / 2,
             Box.width = containWidth 100 50 200 200,
             Box.height = containHeight 100 50 200 200\<rparr>
   \<and> containWidth 100 50 200 200 = 200 \<and> containHeight 100 50 200 200 = 100
   \<and> getFittingRectangle 100 50 200 200 (Some ''slice'')
     = Some \<lparr>x = 0, y = 50, Box.width = 200, Box.height = 100\<rparr>"
proof -
  have h: "''slice'' \<notin> set alignmentTokens \<and> ''slice'' \<noteq> ''none''"
    by (simp add: alignmentTokens_def)
  have c: "containWidth 100 50 200 200 = 200 \<and> containHeight 100 50 200 200 = 100"
    by (simp add: containWidth_def containHeight_def)
  from getFittingRectangle_none_and_default [of 100 50 200 200 "''slice''"] h c
  show ?thesis by simp
qed

text \<open>
  C6. The claim asks for the offset factor 0 for \<open>xMin\<close>/\<open>yMin\<close>, 1/2 for
  \<open>xMid\<close>/\<open>yMid\<close> and 1 for \<open>xMax\<close>/\<open>yMax\<close>, independently in each axis. Seven
  cases of the \<open>switch\<close> do so. The case \<open>xMaxYMin\<close> returns \<open>[dx, dy / 2]\<close> and the
  case \<open>xMinYMid\<close> returns \<open>[0, dy]\<close>: an intrinsic box 100 by 50 in a target 200 by
  200 (so \<open>dx = 0\<close>, \<open>dy = 100\<close>) is placed at \<open>y = 50\<close> under \<open>xMaxYMin\<close> (the
  claim: 0) and at \<open>y = 100\<close> under \<open>xMinYMid\<close> (the claim: 50).
\<close>

theorem getFittingRectangle_alignment_slip:
  "fittingOffset (Some ''xMinYMin'') dx dy = (0 * dx, 0 * dy)
   \<and> fittingOffset (Some ''xMidYMin'') dx dy = (dx / 2, 0 * dy)
   \<and> fittingOffset (Some ''xMaxYMid'') dx dy = (1 * dx, dy / 2)
   \<and> fittingOffset (Some ''xMinYMax'') dx dy = (0 * dx, 1 * dy)
   \<and> fittingOffset (Some ''xMidYMax'') dx dy = (dx / 2, 1 * dy)
   \<and> fittingOffset (Some ''xMaxYMax'') dx dy = (1 * dx, 1 * dy)
   \<and> fittingOffset (Some ''xMidYMid'') dx dy = (dx / 2, dy / 2)
   \<and> fittingOffset (Some ''xMaxYMin'') dx dy = (1 * dx, dy / 2)
   \<and> fittingOffset (Some ''xMinYMid'') dx dy = (0 * dx, 1 * dy)
   \<and> getFittingRectangle 100 50 200 200 (Some ''xMaxYMin'')
     = Some \<lparr>x = 0, y = 50, Box.width = 200, Box.height = 100\<rparr>
   \<and> getFittingRectangle 100 50 200 200 (Some ''xMinYMid'')
     = Some \<lparr>x = 0, y = 100, Box.width = 200, Box.height = 100\<rparr>"
  by (simp add: getFittingRectangle_def fittingOffset_def)


section \<open>Theorems: the transform composer\<close>

lemma translate_two_arguments:
  "transform c ''translate'' [dx, dy]
     = Some (\<lparr>point = (\<lambda>px py. point c (px + dx) (py + dy)), size_conv = size_conv c\<rparr>, [])"
  by (subst transform.simps) simp

lemma rotate_one_argument:
  "transform c ''rotate'' [a]
     = Some (\<lparr>point = (\<lambda>px py. point c
                 (px * cos (degreesToRadians a) - py * sin (degreesToRadians a))
                 (py * cos (degreesToRadians a) + px * sin (degreesToRadians a))),
              size_conv = (\<lambda>w h. size_conv c
                 (w * cos (degreesToRadians a) - h * sin (degreesToRadians a))
                 (h * cos (degreesToRadians a) + w * sin (degreesToRadians a)))\<rparr>, [])"
  by (subst transform.simps) (simp add: Let_def)

lemma rotate_three_arguments:
  "transform c ''rotate'' (a # xc # yc # rest)
     = applyTransforms c
         [(''translate'', [- xc, - yc]), (''rotate'', [a]), (''translate'', [xc, yc])]"
  by (subst transform.simps) (simp add: Let_def split: option.splits)

lemma rotate_two_arguments:
  "transform c ''rotate'' [a, xc]
     = applyTransforms c
         [(''translate'', [- xc, - xc]), (''rotate'', [a]), (''translate'', [xc, xc])]"
  by (subst transform.simps) (simp add: Let_def split: option.splits)

text \<open>
  C4. \<open>rotate(a, xc, yc)\<close> composed onto a converter \<open>C\<close> is the converter obtained by
  composing onto \<open>C\<close>, in sequence, \<open>translate(-xc, -yc)\<close>, \<open>rotate(a)\<close> and
  \<open>translate(xc, yc)\<close>; with \<open>yc\<close> left out it is taken to be \<open>xc\<close>. \<open>rotate(a)\<close> alone
  feeds \<open>C\<close> with the input turned by the rotation matrix of the angle
  \<open>degreesToRadians(a)\<close>, in the point mapping and in the size mapping alike. Nothing is
  logged.
\<close>

theorem transform_rotate:
  "transform C ''rotate'' [a, xc, yc]
     = applyTransforms C
         [(''translate'', [- xc, - yc]), (''rotate'', [a]), (''translate'', [xc, yc])]
   \<and> transform C ''rotate'' [a, xc] = transform C ''rotate'' [a, xc, xc]
   \<and> transform C ''rotate'' [a, xc, yc]
     = Some (\<lparr>point = (\<lambda>px py. point C
                 ((px + xc) * cos (degreesToRadians a) - (py + yc) * sin (degreesToRadians a) - xc)
                 ((py + yc) * cos (degreesToRadians a) + (px + xc) * sin (degreesToRadians a) - yc)),
              size_conv = (\<lambda>w h. size_conv C
                 (w * cos (degreesToRadians a) - h * sin (degreesToRadians a))
                 (h * cos (degreesToRadians a) + w * sin (degreesToRadians a)))\<rparr>, [])
   \<and> transform C ''rotate'' [a]
     = Some (\<lparr>point = (\<lambda>px py. point C
                 (px * cos (degreesToRadians a) - py * sin (degreesToRadians a))
                 (py * cos (degreesToRadians a) + px * sin (degreesToRadians a))),
              size_conv = (\<lambda>w h. size_conv C
                 (w * cos (degreesToRadians a) - h * sin (degreesToRadians a))
                 (h * cos (degreesToRadians a) + w * sin (degreesToRadians a)))\<rparr>, [])"
proof -
  have r3: "transform C ''rotate'' [a, xc, yc]
     = applyTransforms C
         [(''translate'', [- xc, - yc]), (''rotate'', [a]), (''translate'', [xc, yc])]"
    for xc yc
    by (rule rotate_three_arguments)
  have r2: "transform C ''rotate'' [a, xc] = transform C ''rotate'' [a, xc, xc]"
    by (simp only: rotate_two_arguments rotate_three_arguments)
  have ex: "applyTransforms C
         [(''translate'', [- xc, - yc]), (''rotate'', [a]), (''translate'', [xc, yc])]
     = Some (\<lparr>point = (\<lambda>px py. point C
                 ((px + xc) * cos (degreesToRadians a) - (py + yc) * sin (degreesToRadians a) - xc)
                 ((py + yc) * cos (degreesToRadians a) + (px + xc) * sin (degreesToRadians a) - yc)),
              size_conv = (\<lambda>w h. size_conv C
                 (w * cos (degreesToRadians a) - h * sin (degreesToRadians a))
                 (h * cos (degreesToRadians a) + w * sin (degreesToRadians a)))\<rparr>, [])"
    by (simp add: translate_two_arguments rotate_one_argument)
  have r1: "transform C ''rotate'' [a]
     = Some (\<lparr>point = (\<lambda>px py. point C
                 (px * cos (degreesToRadians a) - py * sin (degreesToRadians a))
                 (py * cos (degreesToRadians a) + px * sin (degreesToRadians a))),
              size_conv = (\<lambda>w h. size_conv C
                 (w * cos (degreesToRadians a) - h * sin (degreesToRadians a))
                 (h * cos (degreesToRadians a) + w * sin (degreesToRadians a)))\<rparr>, [])"
    by (simp add: rotate_one_argument)
  show ?thesis
    using r3 r2 ex r1 by simp
qed

text \<open>
  C8. An instruction whose name has no \<open>case\<close> in the \<open>switch\<close> leaves the converter as
  it is, whatever its arguments: \<open>transform\<close> returns the converter it was given, and
  writes one line to the log.
\<close>

theorem transform_unsupported:
  "name \<notin> set supportedTransforms \<Longrightarrow>
     transform C name args = Some (C, [''transformation unsupported: '' @ name])"
  by (subst transform.simps) (simp add: supportedTransforms_def)

theorem transform_unsupported_witness:
  "''matrix'' \<notin> set supportedTransforms
   \<and> transform (defaultConverter 100) ''matrix'' [1, 0, 0, 1, 0, 0]
       = Some (defaultConverter 100, [''transformation unsupported: matrix''])"
proof -
  have h: "''matrix'' \<notin> set supportedTransforms"
    by (simp add: supportedTransforms_def)
  from transform_unsupported [OF h, of "defaultConverter 100" "[1, 0, 0, 1, 0, 0]"] h
  show ?thesis by simp
qed


section \<open>Theorems: the clipper\<close>

lemma fold_firstNearest_step:
  "fold (\<lambda>q best. if f q < f best then q else best) (q0 # qs) p
     = (if f p \<le> f (fold (\<lambda>q best. if f q < f best then q else best) qs q0) then p
        else fold (\<lambda>q best. if f q < f best then q else best) qs q0)"
  for f :: "'a \<Rightarrow> real"
proof (induction qs arbitrary: p q0)
  case Nil
  show ?case by auto
next
  case (Cons q1 qs)
  show ?case
    using Cons.IH [of q1 "if f q0 < f p then q0 else p"] Cons.IH [of q1 q0]
    by (auto split: if_splits)
qed

lemma hd_insort_key:
  "hd (insort_key f v vs) = (if vs = [] \<or> f v \<le> f (hd vs) then v else hd vs)"
  by (cases vs) auto

lemma hd_sort_key_fold:
  "hd (sort_key f (p # ps)) = fold (\<lambda>q best. if f q < f best then q else best) ps p"
  for f :: "'a \<Rightarrow> real"
proof (induction ps arbitrary: p)
  case Nil
  show ?case by simp
next
  case (Cons q0 qs)
  have ne: "sort_key f (q0 # qs) \<noteq> []"
    by (metis length_sort list.distinct(1) list.size(3) length_0_conv)
  have "hd (sort_key f (p # q0 # qs)) = hd (insort_key f p (sort_key f (q0 # qs)))"
    by simp
  also have "\<dots> = (if f p \<le> f (hd (sort_key f (q0 # qs))) then p
                    else hd (sort_key f (q0 # qs)))"
    using ne by (simp only: hd_insort_key if_False simp_thms)
  also have "\<dots> = fold (\<lambda>q best. if f q < f best then q else best) (q0 # qs) p"
    by (simp only: Cons.IH fold_firstNearest_step)
  finally show ?case .
qed

lemma hd_sort_key_firstNearest:
  "ps \<noteq> [] \<Longrightarrow> firstNearest f ps = Some (hd (sort_key f ps))"
proof (cases ps)
  case Nil
  assume "ps \<noteq> []"
  with Nil show ?thesis by simp
next
  case (Cons q0 qs)
  show ?thesis
    unfolding Cons by (simp only: firstNearest.simps hd_sort_key_fold)
qed

lemma hd_sort_key_least:
  "ps \<noteq> [] \<Longrightarrow> hd (sort_key f ps) \<in> set ps \<and> (\<forall>p \<in> set ps. f (hd (sort_key f ps)) \<le> f p)"
  for f :: "'a \<Rightarrow> real"
proof -
  assume ne: "ps \<noteq> []"
  then have ne': "sort_key f ps \<noteq> []"
    by (metis length_sort length_0_conv)
  then obtain v vs where s: "sort_key f ps = v # vs"
    by (cases "sort_key f ps") auto
  have "sorted (map f (sort_key f ps))" by (rule sorted_sort_key)
  then have "\<forall>p \<in> set (sort_key f ps). f v \<le> f p"
    using s by auto
  then have least: "\<forall>p \<in> set ps. f v \<le> f p"
    by (simp only: set_sort)
  have "v \<in> set (sort_key f ps)"
    using s by simp
  then have "v \<in> set ps"
    by (simp only: set_sort)
  with least show ?thesis
    using s by simp
qed

text \<open>
  C1. A segment whose two endpoints are inside the rectangle (the distance of each to its
  orthogonal projection on the rectangle is equal to zero) is returned as it is; a segment
  with an endpoint outside and no intersection with the rectangle gives no segment, and
  the \<open>line\<close> runner then draws nothing.
\<close>

theorem getInnerSegment_inside_or_disjoint:
  "(isCoordinateInsideTheRect G start rect \<and> isCoordinateInsideTheRect G end rect
      \<longrightarrow> getInnerSegment G start end rect = Some \<lparr>A = start, B = end\<rparr>)
   \<and> (\<not> (isCoordinateInsideTheRect G start rect \<and> isCoordinateInsideTheRect G end rect)
       \<and> getIntersections G rect \<lparr>A = start, B = end\<rparr> = []
      \<longrightarrow> getInnerSegment G start end rect = None
          \<and> runners_line G rect
                (element\<lparr>x1 := Some (x start), y1 := Some (y start),
                          x2 := Some (x end), y2 := Some (y end)\<rparr>) = Some [])
   \<and> (isCoordinateInsideTheRect G p rect
        \<longleftrightarrow> isEqual G 0 (distance G p (orthoProjection G rect p)))"
proof -
  have pos: "\<lparr>x = x q, y = y q\<rparr> = q" for q :: Position
    by simp
  show ?thesis
    by (auto simp add: getInnerSegment_def runners_line_def isCoordinateInsideTheRect_def
        Let_def pos)
qed

lemmas plane_defs =
  isCoordinateInsideTheRect_def planeGeometry_def planeOrthoProjection_def planeDistance_def
  planeIntersections_def rectangleEdges_def segmentCrossing_def svgRect100_def clampBetween_def

theorem getInnerSegment_inside_or_disjoint_witness:
  "isCoordinateInsideTheRect planeGeometry \<lparr>x = 10, y = 10\<rparr> svgRect100
   \<and> isCoordinateInsideTheRect planeGeometry \<lparr>x = 20, y = 30\<rparr> svgRect100
   \<and> getInnerSegment planeGeometry \<lparr>x = 10, y = 10\<rparr> \<lparr>x = 20, y = 30\<rparr> svgRect100
       = Some \<lparr>A = \<lparr>x = 10, y = 10\<rparr>, B = \<lparr>x = 20, y = 30\<rparr>\<rparr>
   \<and> \<not> isCoordinateInsideTheRect planeGeometry \<lparr>x = 150, y = 10\<rparr> svgRect100
   \<and> getIntersections planeGeometry svgRect100
         \<lparr>A = \<lparr>x = 150, y = 10\<rparr>, B = \<lparr>x = 200, y = 50\<rparr>\<rparr> = []
   \<and> getInnerSegment planeGeometry \<lparr>x = 150, y = 10\<rparr> \<lparr>x = 200, y = 50\<rparr> svgRect100 = None"
proof -
  have in1: "isCoordinateInsideTheRect planeGeometry \<lparr>x = 10, y = 10\<rparr> svgRect100"
    by (simp add: plane_defs)
  have in2: "isCoordinateInsideTheRect planeGeometry \<lparr>x = 20, y = 30\<rparr> svgRect100"
    by (simp add: plane_defs)
  have out: "\<not> isCoordinateInsideTheRect planeGeometry \<lparr>x = 150, y = 10\<rparr> svgRect100"
    by (simp add: plane_defs)
  have none: "getIntersections planeGeometry svgRect100
         \<lparr>A = \<lparr>x = 150, y = 10\<rparr>, B = \<lparr>x = 200, y = 50\<rparr>\<rparr> = []"
    by (simp add: plane_defs)
  from getInnerSegment_inside_or_disjoint
         [of planeGeometry "\<lparr>x = 10, y = 10\<rparr>" svgRect100 "\<lparr>x = 20, y = 30\<rparr>"]
       getInnerSegment_inside_or_disjoint
         [of planeGeometry "\<lparr>x = 150, y = 10\<rparr>" svgRect100 "\<lparr>x = 200, y = 50\<rparr>"]
       in1 in2 out none
  show ?thesis by blast
qed

text \<open>
  C2. When an endpoint is outside and the segment meets the boundary, the result keeps
  each endpoint that is inside, and puts in the place of each endpoint that is outside the
  intersection point nearest to it: a point of the intersections at the least distance,
  and among those at the least distance the first one of the array as it stands when it is
  sorted for that endpoint (for the end that is the array already sorted for the start,
  when the start is outside too). With a single intersection point, an outside endpoint
  becomes that point.
\<close>

theorem getInnerSegment_nearest:
  assumes "\<not> (isCoordinateInsideTheRect G start rect \<and> isCoordinateInsideTheRect G end rect)"
    and "getIntersections G rect \<lparr>A = start, B = end\<rparr> \<noteq> []"
  shows "\<exists>s. getInnerSegment G start end rect = Some s
     \<and> (isCoordinateInsideTheRect G start rect \<longrightarrow> A s = start)
     \<and> (isCoordinateInsideTheRect G end rect \<longrightarrow> B s = end)
     \<and> (\<not> isCoordinateInsideTheRect G start rect \<longrightarrow>
          A s \<in> set (getIntersections G rect \<lparr>A = start, B = end\<rparr>)
          \<and> (\<forall>p \<in> set (getIntersections G rect \<lparr>A = start, B = end\<rparr>).
                distanceCoords G start (A s) \<le> distanceCoords G start p)
          \<and> firstNearest (distanceCoords G start)
                (getIntersections G rect \<lparr>A = start, B = end\<rparr>) = Some (A s))
     \<and> (\<not> isCoordinateInsideTheRect G end rect \<longrightarrow>
          B s \<in> set (getIntersections G rect \<lparr>A = start, B = end\<rparr>)
          \<and> (\<forall>p \<in> set (getIntersections G rect \<lparr>A = start, B = end\<rparr>).
                distanceCoords G end (B s) \<le> distanceCoords G end p)
          \<and> firstNearest (distanceCoords G end)
                (if isCoordinateInsideTheRect G start rect
                 then getIntersections G rect \<lparr>A = start, B = end\<rparr>
                 else sort_key (distanceCoords G start)
                        (getIntersections G rect \<lparr>A = start, B = end\<rparr>)) = Some (B s))
     \<and> (\<forall>p. getIntersections G rect \<lparr>A = start, B = end\<rparr> = [p] \<longrightarrow>
          (\<not> isCoordinateInsideTheRect G start rect \<longrightarrow> A s = p)
          \<and> (\<not> isCoordinateInsideTheRect G end rect \<longrightarrow> B s = p))"
proof -
  define ints where "ints = getIntersections G rect \<lparr>A = start, B = end\<rparr>"
  define arr where "arr = (if isCoordinateInsideTheRect G start rect then ints
                           else sort_key (distanceCoords G start) ints)"
  define a where "a = (if isCoordinateInsideTheRect G start rect then start
                       else hd (sort_key (distanceCoords G start) ints))"
  define b where "b = (if isCoordinateInsideTheRect G end rect then end
                       else hd (sort_key (distanceCoords G end) arr))"
  have ne: "ints \<noteq> []"
    using assms(2) by (simp add: ints_def)
  have "length arr = length ints"
    by (simp add: arr_def)
  then have ne_arr: "arr \<noteq> []"
    using ne by (metis length_0_conv)
  have set_arr: "set arr = set ints"
    by (simp add: arr_def)
  have res: "getInnerSegment G start end rect = Some \<lparr>A = a, B = b\<rparr>"
    using assms(1) ne
    by (auto simp add: getInnerSegment_def Let_def a_def b_def arr_def ints_def)
  have sa: "A \<lparr>A = a, B = b\<rparr> \<in> set ints
        \<and> (\<forall>p \<in> set ints. distanceCoords G start (A \<lparr>A = a, B = b\<rparr>) \<le> distanceCoords G start p)
        \<and> firstNearest (distanceCoords G start) ints = Some (A \<lparr>A = a, B = b\<rparr>)"
    if "\<not> isCoordinateInsideTheRect G start rect"
    using that hd_sort_key_least [OF ne, of "distanceCoords G start"]
      hd_sort_key_firstNearest [OF ne, of "distanceCoords G start"]
    by (simp add: a_def)
  have sb: "B \<lparr>A = a, B = b\<rparr> \<in> set ints
        \<and> (\<forall>p \<in> set ints. distanceCoords G end (B \<lparr>A = a, B = b\<rparr>) \<le> distanceCoords G end p)
        \<and> firstNearest (distanceCoords G end) arr = Some (B \<lparr>A = a, B = b\<rparr>)"
    if "\<not> isCoordinateInsideTheRect G end rect"
    using that hd_sort_key_least [OF ne_arr, of "distanceCoords G end"]
      hd_sort_key_firstNearest [OF ne_arr, of "distanceCoords G end"]
    by (simp add: b_def set_arr)
  have single: "(\<not> isCoordinateInsideTheRect G start rect \<longrightarrow> A \<lparr>A = a, B = b\<rparr> = p)
        \<and> (\<not> isCoordinateInsideTheRect G end rect \<longrightarrow> B \<lparr>A = a, B = b\<rparr> = p)"
    if "ints = [p]" for p
    using that by (simp add: a_def b_def arr_def)
  have ia: "isCoordinateInsideTheRect G start rect \<longrightarrow> A \<lparr>A = a, B = b\<rparr> = start"
    by (simp add: a_def)
  have ib: "isCoordinateInsideTheRect G end rect \<longrightarrow> B \<lparr>A = a, B = b\<rparr> = end"
    by (simp add: b_def)
  show ?thesis
    unfolding ints_def [symmetric] arr_def [symmetric]
    using res sa sb single ia ib by blast
qed

theorem getInnerSegment_nearest_witness:
  "\<not> (isCoordinateInsideTheRect planeGeometry \<lparr>x = - 50, y = 50\<rparr> svgRect100
        \<and> isCoordinateInsideTheRect planeGeometry \<lparr>x = 150, y = 50\<rparr> svgRect100)
   \<and> getIntersections planeGeometry svgRect100
         \<lparr>A = \<lparr>x = - 50, y = 50\<rparr>, B = \<lparr>x = 150, y = 50\<rparr>\<rparr>
       = [\<lparr>x = 100, y = 50\<rparr>, \<lparr>x = 0, y = 50\<rparr>]
   \<and> getInnerSegment planeGeometry \<lparr>x = - 50, y = 50\<rparr> \<lparr>x = 150, y = 50\<rparr> svgRect100
       = Some \<lparr>A = \<lparr>x = 0, y = 50\<rparr>, B = \<lparr>x = 100, y = 50\<rparr>\<rparr>"
proof -
  have out: "\<not> (isCoordinateInsideTheRect planeGeometry \<lparr>x = - 50, y = 50\<rparr> svgRect100
        \<and> isCoordinateInsideTheRect planeGeometry \<lparr>x = 150, y = 50\<rparr> svgRect100)"
    by (simp add: plane_defs)
  have ints: "getIntersections planeGeometry svgRect100
         \<lparr>A = \<lparr>x = - 50, y = 50\<rparr>, B = \<lparr>x = 150, y = 50\<rparr>\<rparr>
       = [\<lparr>x = 100, y = 50\<rparr>, \<lparr>x = 0, y = 50\<rparr>]"
    by (simp add: plane_defs)
  then have ne: "getIntersections planeGeometry svgRect100
         \<lparr>A = \<lparr>x = - 50, y = 50\<rparr>, B = \<lparr>x = 150, y = 50\<rparr>\<rparr> \<noteq> []"
    by simp
  have o1: "\<not> isCoordinateInsideTheRect planeGeometry \<lparr>x = - 50, y = 50\<rparr> svgRect100"
    by (simp add: plane_defs)
  have o2: "\<not> isCoordinateInsideTheRect planeGeometry \<lparr>x = 150, y = 50\<rparr> svgRect100"
    by (simp add: plane_defs)
  have dc: "distanceCoords planeGeometry = planeDistance"
    by (simp add: planeGeometry_def)
  from getInnerSegment_nearest [OF out ne]
  obtain s where s: "getInnerSegment planeGeometry \<lparr>x = - 50, y = 50\<rparr> \<lparr>x = 150, y = 50\<rparr> svgRect100 = Some s"
    and sa: "firstNearest (distanceCoords planeGeometry \<lparr>x = - 50, y = 50\<rparr>)
               [\<lparr>x = 100, y = 50\<rparr>, \<lparr>x = 0, y = 50\<rparr>] = Some (A s)"
    and sb: "firstNearest (distanceCoords planeGeometry \<lparr>x = 150, y = 50\<rparr>)
               (sort_key (distanceCoords planeGeometry \<lparr>x = - 50, y = 50\<rparr>)
                  [\<lparr>x = 100, y = 50\<rparr>, \<lparr>x = 0, y = 50\<rparr>]) = Some (B s)"
    using o1 o2 unfolding ints by auto
  have "A s = \<lparr>x = 0, y = 50\<rparr>"
    using sa by (simp add: dc planeDistance_def)
  moreover have "B s = \<lparr>x = 100, y = 50\<rparr>"
    using sb by (simp add: dc planeDistance_def)
  ultimately have "s = \<lparr>A = \<lparr>x = 0, y = 50\<rparr>, B = \<lparr>x = 100, y = 50\<rparr>\<rparr>"
    by (cases s) simp
  with s out ints show ?thesis by simp
qed


section \<open>Theorems: the path rewriter\<close>

text \<open>
  C3. For a command \<open>l\<close> or \<open>L\<close> with its two numbers, \<open>handlePath\<close> returns as the
  point for the next command the end of the segment before clipping: the current point
  (for \<open>l\<close>) or the origin of the path (for \<open>L\<close>) moved by the two numbers. That holds
  whatever the clipper answers, so whether the line is written whole, shortened or not at
  all; and the loop of the runner starts the next command from that point.
\<close>

theorem handlePath_line_returns_unclipped_end:
  assumes "command = ''l'' \<or> command = ''L''"
  shows "\<exists>cmd.
      handlePath G svgRect basePoint currentPoint command (p0 # p1 # ps)
        = Some (\<lparr>x = (if command = ''l'' then x currentPoint else x basePoint) + p0,
                  y = (if command = ''l'' then y currentPoint else y basePoint) + p1\<rparr>, cmd)
      \<and> pathCommands G svgRect basePoint currentPoint ((command, p0 # p1 # ps) # commands)
        = (case pathCommands G svgRect basePoint
                  \<lparr>x = (if command = ''l'' then x currentPoint else x basePoint) + p0,
                   y = (if command = ''l'' then y currentPoint else y basePoint) + p1\<rparr> commands of
             None \<Rightarrow> None
           | Some rest \<Rightarrow> Some (cmd # rest))"
proof -
  define nextPoint where "nextPoint =
      \<lparr>x = (if command = ''l'' then x currentPoint else x basePoint) + p0,
       y = (if command = ''l'' then y currentPoint else y basePoint) + p1\<rparr>"
  have "\<exists>cmd. handlePath G svgRect basePoint currentPoint command (p0 # p1 # ps)
                 = Some (nextPoint, cmd)"
    using assms
    by (auto simp add: handlePath_def Let_def nextPoint_def split: option.splits)
  then obtain cmd where
    h: "handlePath G svgRect basePoint currentPoint command (p0 # p1 # ps) = Some (nextPoint, cmd)"
    by blast
  have "pathCommands G svgRect basePoint currentPoint ((command, p0 # p1 # ps) # commands)
        = (case pathCommands G svgRect basePoint nextPoint commands of
             None \<Rightarrow> None
           | Some rest \<Rightarrow> Some (cmd # rest))"
    by (simp add: h)
  with h show ?thesis
    unfolding nextPoint_def by blast
qed

theorem handlePath_line_returns_unclipped_end_witness:
  "(''l'' = ''l'' \<or> ''l'' = ''L'')
   \<and> handlePath planeGeometry svgRect100 \<lparr>x = 0, y = 100\<rparr> \<lparr>x = 50, y = 50\<rparr> ''l'' [100, 0]
       = Some (\<lparr>x = 150, y = 50\<rparr>,
               [Str '' L'', Num 100, Str '','', Num (- 50), Str '' '',
                Str ''M'', Num 150, Str '','', Num (- 50), Str '' ''])"
proof -
  have c: "''l'' = ''l'' \<or> ''l'' = ''L''"
    by simp
  from handlePath_line_returns_unclipped_end
         [OF c, of planeGeometry svgRect100 "\<lparr>x = 0, y = 100\<rparr>" "\<lparr>x = 50, y = 50\<rparr>" 100 0 "[]" "[]"]
  obtain cmd where
    h: "handlePath planeGeometry svgRect100 \<lparr>x = 0, y = 100\<rparr> \<lparr>x = 50, y = 50\<rparr> ''l'' [100, 0]
          = Some (\<lparr>x = 150, y = 50\<rparr>, cmd)"
    by auto
  have pie: "pointIsEqual planeGeometry = (\<lambda>p q. p = q)"
    by (simp add: planeGeometry_def)
  have seg: "getInnerSegment planeGeometry \<lparr>x = 50, y = 50\<rparr> \<lparr>x = 150, y = 50\<rparr> svgRect100
               = Some \<lparr>A = \<lparr>x = 50, y = 50\<rparr>, B = \<lparr>x = 100, y = 50\<rparr>\<rparr>"
    by (simp add: getInnerSegment_def plane_defs)
  have "handlePath planeGeometry svgRect100 \<lparr>x = 0, y = 100\<rparr> \<lparr>x = 50, y = 50\<rparr> ''l'' [100, 0]
       = Some (\<lparr>x = 150, y = 50\<rparr>,
               [Str '' L'', Num 100, Str '','', Num (- 50), Str '' '',
                Str ''M'', Num 150, Str '','', Num (- 50), Str '' ''])"
    by (simp add: handlePath_def Let_def seg normalizePoint_def pie)
  with h c show ?thesis by simp
qed


section \<open>Theorems: attribute resolution\<close>

lemmas parse_defs =
  parseFloatValue_def parseFloat_def signOf_def isDigit_def isWhiteSpace_def digitsValue_def
  exponentPart_def

text \<open>
  C7. The claim fails for a stroke width that the cascade resolves to zero: the element
  \<open>stroke-width="0"\<close> keeps the width 0, which is below one unit and is not
  \<open>max(min(|0|, |0|), 1) = 1\<close>.
\<close>

theorem strokeWidth_zero_counterexample:
  "strokeWidthCascade [(''stroke-width'', ''0'')] [] None = Some (Some 0)
   \<and> parseAttributes_strokeWidth (defaultConverter 100) [(''stroke-width'', ''0'')] [] None
       = Some (Some 0)
   \<and> parseAttributes_strokeWidth (defaultConverter 100) [(''stroke-width'', ''0'')] [] None
       \<noteq> Some (Some (max (min \<bar>width (size_conv (defaultConverter 100) 0 0)\<bar>
                                \<bar>height (size_conv (defaultConverter 100) 0 0)\<bar>) 1))"
  by (simp add: parseAttributes_strokeWidth_def strokeWidthCascade_def styleOrAttribute_def
      truthy_def parse_defs defaultConverter_def)

text \<open>
  C7, amended. When the cascade resolves a stroke width other than zero, the resolved
  width is \<open>max(min(|w|, |h|), 1)\<close> for the width \<open>w\<close> and the height \<open>h\<close> that the size
  mapping of the converter gives for that stroke width, and it is at least one. When the
  cascade resolves the stroke width zero, from the attribute or by inheritance, the
  resolved width is zero, whatever the converter. When the cascade resolves no stroke
  width, none is resolved.
\<close>

theorem strokeWidth_clamped:
  "(strokeWidthCascade attributes style inheritedStrokeWidth = Some (Some sw) \<and> sw \<noteq> 0 \<longrightarrow>
      parseAttributes_strokeWidth newConverter attributes style inheritedStrokeWidth
        = Some (Some (max (min \<bar>width (size_conv newConverter sw sw)\<bar>
                               \<bar>height (size_conv newConverter sw sw)\<bar>) 1))
      \<and> (\<exists>v. parseAttributes_strokeWidth newConverter attributes style inheritedStrokeWidth
                 = Some (Some v) \<and> 1 \<le> v))
   \<and> (strokeWidthCascade attributes style inheritedStrokeWidth = Some (Some 0) \<longrightarrow>
        parseAttributes_strokeWidth newConverter attributes style inheritedStrokeWidth
          = Some (Some 0))
   \<and> (strokeWidthCascade attributes style inheritedStrokeWidth = Some None \<longrightarrow>
        parseAttributes_strokeWidth newConverter attributes style inheritedStrokeWidth
          = Some None)"
  by (simp add: parseAttributes_strokeWidth_def Let_def)

theorem strokeWidth_clamped_witness:
  "strokeWidthCascade [(''stroke-width'', ''0.5'')] [] None = Some (Some (1 / 2))
   \<and> (1 / 2 :: real) \<noteq> 0
   \<and> parseAttributes_strokeWidth (defaultConverter 100) [(''stroke-width'', ''0.5'')] [] None
       = Some (Some 1)
   \<and> strokeWidthCascade [] [] (Some 0) = Some (Some 0)
   \<and> parseAttributes_strokeWidth (defaultConverter 100) [] [] (Some 0) = Some (Some 0)
   \<and> strokeWidthCascade [(''stroke-width'', ''0'')] [] (Some 4) = Some (Some 0)
   \<and> parseAttributes_strokeWidth (defaultConverter 100) [(''stroke-width'', ''0'')] [] (Some 4)
       = Some (Some 0)
   \<and> strokeWidthCascade [] [] None = Some None
   \<and> parseAttributes_strokeWidth (defaultConverter 100) [] [] None = Some None"
proof -
  have c: "strokeWidthCascade [(''stroke-width'', ''0.5'')] [] None = Some (Some (1 / 2))"
    by (simp add: strokeWidthCascade_def styleOrAttribute_def truthy_def parse_defs)
  have n: "(1 / 2 :: real) \<noteq> 0"
    by simp
  have z1: "strokeWidthCascade [] [] (Some 0) = Some (Some 0)"
    by (simp add: strokeWidthCascade_def styleOrAttribute_def truthy_def parse_defs)
  have z2: "strokeWidthCascade [(''stroke-width'', ''0'')] [] (Some 4) = Some (Some 0)"
    by (simp add: strokeWidthCascade_def styleOrAttribute_def truthy_def parse_defs)
  have u: "strokeWidthCascade [] [] None = Some None"
    by (simp add: strokeWidthCascade_def styleOrAttribute_def truthy_def parse_defs)
  have a: "parseAttributes_strokeWidth (defaultConverter 100) [(''stroke-width'', ''0.5'')] []
             None = Some (Some 1)"
    using strokeWidth_clamped
            [of "[(''stroke-width'', ''0.5'')]" "[]" None "1 / 2" "defaultConverter 100"] c n
    by (simp add: defaultConverter_def)
  have b: "parseAttributes_strokeWidth (defaultConverter 100) [] [] (Some 0) = Some (Some 0)"
    using strokeWidth_clamped [of "[]" "[]" "Some 0" 0 "defaultConverter 100"] z1
    by simp
  have b2: "parseAttributes_strokeWidth (defaultConverter 100) [(''stroke-width'', ''0'')] []
              (Some 4) = Some (Some 0)"
    using strokeWidth_clamped
            [of "[(''stroke-width'', ''0'')]" "[]" "Some 4" 0 "defaultConverter 100"] z2
    by simp
  have e: "parseAttributes_strokeWidth (defaultConverter 100) [] [] None = Some None"
    using strokeWidth_clamped [of "[]" "[]" None 0 "defaultConverter 100"] u
    by simp
  from c n a z1 b z2 b2 u e show ?thesis
    by (intro conjI)
qed

lemma strokeWidth_infinity:
  "parseFloat ''Infinity'' = Infinite False
   \<and> strokeWidthCascade [(''stroke-width'', ''Infinity'')] [] (Some 4) = None
   \<and> parseAttributes_strokeWidth (defaultConverter 100) [(''stroke-width'', ''Infinity'')] []
        (Some 4) = None"
  by (simp add: parseAttributes_strokeWidth_def strokeWidthCascade_def styleOrAttribute_def
      truthy_def parse_defs)

lemma allSome_map_option:
  "allSome (map (\<lambda>p. map_option f (g p)) ps) = map_option (map f) (allSome (map g ps))"
  by (induction ps) (auto split: option.splits)

lemma numeralAt_head:
  assumes "numeralAt s = Some m"
  shows "\<exists>c cs. s = c # cs \<and>
           (isDigit c \<or> c = CHR ''.''
            \<or> (c = CHR ''-'' \<and> (\<exists>c2 cs2. cs = c2 # cs2 \<and> (isDigit c2 \<or> c2 = CHR ''.''))))"
proof -
  have start: "\<exists>c2 cs2. u = c2 # cs2 \<and> (isDigit c2 \<or> c2 = CHR ''.'')"
    if "takeWhile isDigit u \<noteq> []
        \<or> (case dropWhile isDigit u of [] \<Rightarrow> False | c # _ \<Rightarrow> c = CHR ''.'')" for u
    using that by (cases u) (auto split: if_splits)
  show ?thesis
  proof (cases s)
    case Nil
    with assms show ?thesis
      by (simp add: numeralAt_def)
  next
    case (Cons c cs)
    show ?thesis
    proof (cases "c = CHR ''-''")
      case True
      with assms Cons have "takeWhile isDigit cs \<noteq> []
        \<or> (case dropWhile isDigit cs of [] \<Rightarrow> False | c # _ \<Rightarrow> c = CHR ''.'')"
        by (auto simp add: numeralAt_def Let_def split: if_splits)
      from start [OF this] Cons True show ?thesis
        by auto
    next
      case False
      with assms Cons have "takeWhile isDigit (c # cs) \<noteq> []
        \<or> (case dropWhile isDigit (c # cs) of [] \<Rightarrow> False | c # _ \<Rightarrow> c = CHR ''.'')"
        by (auto simp add: numeralAt_def Let_def split: if_splits)
      from start [OF this] Cons show ?thesis
        by auto
    qed
  qed
qed

lemma numeral_not_infinite:
  assumes "numeralAt s = Some m"
  shows "parseFloat s \<noteq> Infinite negative"
proof -
  have digit: "\<not> isWhiteSpace c \<and> c \<noteq> CHR ''I'' \<and> c \<noteq> CHR ''-'' \<and> c \<noteq> CHR ''+''"
    if "isDigit c \<or> c = CHR ''.''" for c
    using that by (auto simp add: isDigit_def isWhiteSpace_def)
  from numeralAt_head [OF assms] obtain c cs where s: "s = c # cs"
    and h: "isDigit c \<or> c = CHR ''.''
            \<or> (c = CHR ''-'' \<and> (\<exists>c2 cs2. cs = c2 # cs2 \<and> (isDigit c2 \<or> c2 = CHR ''.'')))"
    by blast
  show ?thesis
  proof (cases "c = CHR ''-''")
    case True
    with h obtain c2 cs2 where cs: "cs = c2 # cs2" and h2: "isDigit c2 \<or> c2 = CHR ''.''"
      by (auto simp add: isDigit_def)
    show ?thesis
      using digit [OF h2]
      by (simp add: parseFloat_def signOf_def s cs True isWhiteSpace_def Let_def)
  next
    case False
    with h have h1: "isDigit c \<or> c = CHR ''.''"
      by blast
    show ?thesis
      using digit [OF h1]
      by (simp add: parseFloat_def signOf_def s Let_def)
  qed
qed

lemma parseFloatValue_numeral:
  "numeralAt s = Some m \<Longrightarrow> parseFloatValue (Some s) reference \<noteq> None"
  using numeral_not_infinite [of s m]
  by (cases "parseFloat s") (auto simp add: parseFloatValue_def)

lemma pairValues_numerals:
  "\<forall>(a, b) \<in> set coords. numeralAt a = Some a \<and> numeralAt b = Some b \<Longrightarrow>
     pairValues w h coords \<noteq> None"
proof (induction coords)
  case Nil
  show ?case by (simp add: pairValues_def)
next
  case (Cons p coords)
  obtain a b where p: "p = (a, b)"
    by (cases p)
  from Cons.prems p have na: "numeralAt a = Some a" and nb: "numeralAt b = Some b"
    by auto
  have "parseFloatValue (Some a) w \<noteq> None" "parseFloatValue (Some b) h \<noteq> None"
    using parseFloatValue_numeral [OF na] parseFloatValue_numeral [OF nb] by blast+
  moreover from Cons have "pairValues w h coords \<noteq> None"
    by simp
  ultimately show ?case
    by (auto simp add: pairValues_def p)
qed

text \<open>
  C9. In the rewriting of the coordinate pairs of the commands \<open>l\<close>, \<open>t\<close>, \<open>m\<close>, \<open>q\<close>,
  \<open>c\<close>, a pair after a lowercase letter goes through the size mapping of the converter
  and is written with the second component negated; a pair after an uppercase letter goes
  through the point mapping, is written relative to the converted origin, and is not
  negated. The numbers of the pairs are real numbers whenever the two texts of each pair
  are numerals as the regular expression matches them.
\<close>

theorem pathPairs_relative_negated_absolute_not:
  "(letter \<in> set ''ltmqc'' \<longrightarrow>
      parseAttributes_pathPairs converter w h letter coords
        = map_option
            (\<lambda>nums. Str [letter] #
               concat (joinWith [Str '' '']
                 (map (\<lambda>(xReal, yReal).
                        [Num (width (size_conv converter xReal yReal)),
                         Str '','',
                         Num (- height (size_conv converter xReal yReal))])
                      nums)))
            (pairValues w h coords))
   \<and> (letter \<in> set ''LTMQC'' \<longrightarrow>
      parseAttributes_pathPairs converter w h letter coords
        = map_option
            (\<lambda>nums. Str [letter] #
               concat (joinWith [Str '' '']
                 (map (\<lambda>(xReal, yReal).
                        [Num (x (point converter xReal yReal) - x (point converter 0 0)),
                         Str '','',
                         Num (y (point converter xReal yReal) - y (point converter 0 0))])
                      nums)))
            (pairValues w h coords))
   \<and> ((\<forall>(a, b) \<in> set coords. numeralAt a = Some a \<and> numeralAt b = Some b) \<longrightarrow>
        pairValues w h coords \<noteq> None)"
proof -
  have lower: "c = toLowerCase c" if "c \<in> set ''ltmqc''" for c
    using that by (auto simp add: toLowerCase_def)
  have upper: "c \<noteq> toLowerCase c" if "c \<in> set ''LTMQC''" for c
  proof
    assume "c = toLowerCase c"
    then have "(of_char c :: nat) = of_char (toLowerCase c)"
      by simp
    moreover have "(of_char (toLowerCase c) :: nat) = of_char c + 32"
      using that by (auto simp add: toLowerCase_def)
    ultimately show False
      by simp
  qed
  have shape: "(\<lambda>(a, b).
                 case (parseFloatValue (Some a) w, parseFloatValue (Some b) h) of
                   (Some xv, Some yv) \<Rightarrow> Some (F (orZero xv) (orZero yv))
                 | _ \<Rightarrow> None)
             = (\<lambda>p. map_option (\<lambda>(xReal, yReal). F xReal yReal)
                       (case p of (a, b) \<Rightarrow>
                          case (parseFloatValue (Some a) w, parseFloatValue (Some b) h) of
                            (Some xv, Some yv) \<Rightarrow> Some (orZero xv, orZero yv)
                          | _ \<Rightarrow> None))"
    for F :: "real \<Rightarrow> real \<Rightarrow> piece list"
    by (intro ext) (auto split: option.splits prod.splits)
  have general: "map_option (\<lambda>texts. Str [letter] # concat (joinWith [Str '' ''] texts))
           (allSome
              (map (\<lambda>(a, b).
                     case (parseFloatValue (Some a) w, parseFloatValue (Some b) h) of
                       (Some xv, Some yv) \<Rightarrow> Some (F (orZero xv) (orZero yv))
                     | _ \<Rightarrow> None)
                   coords))
        = map_option
            (\<lambda>nums. Str [letter] #
               concat (joinWith [Str '' ''] (map (\<lambda>(xReal, yReal). F xReal yReal) nums)))
            (pairValues w h coords)"
    for F :: "real \<Rightarrow> real \<Rightarrow> piece list"
    unfolding shape pairValues_def
    by (simp add: allSome_map_option option.map_comp o_def)
  define F where "F = (\<lambda>xReal yReal.
              if letter = toLowerCase letter
              then joinWith (Str '','')
                     [Num (width (size_conv converter xReal yReal)),
                      Num (- height (size_conv converter xReal yReal))]
              else joinWith (Str '','')
                     [Num (x (point converter xReal yReal) - x (point converter 0 0)),
                      Num (y (point converter xReal yReal) - y (point converter 0 0))])"
  have "parseAttributes_pathPairs converter w h letter coords
        = map_option (\<lambda>texts. Str [letter] # concat (joinWith [Str '' ''] texts))
           (allSome
              (map (\<lambda>(a, b).
                     case (parseFloatValue (Some a) w, parseFloatValue (Some b) h) of
                       (Some xv, Some yv) \<Rightarrow> Some (F (orZero xv) (orZero yv))
                     | _ \<Rightarrow> None)
                   coords))"
    unfolding parseAttributes_pathPairs_def Let_def F_def ..
  then have g: "parseAttributes_pathPairs converter w h letter coords
        = map_option
            (\<lambda>nums. Str [letter] #
               concat (joinWith [Str '' ''] (map (\<lambda>(xReal, yReal). F xReal yReal) nums)))
            (pairValues w h coords)"
    by (simp only: general)
  have l: "parseAttributes_pathPairs converter w h letter coords
        = map_option
            (\<lambda>nums. Str [letter] #
               concat (joinWith [Str '' '']
                 (map (\<lambda>(xReal, yReal).
                        [Num (width (size_conv converter xReal yReal)),
                         Str '','',
                         Num (- height (size_conv converter xReal yReal))])
                      nums)))
            (pairValues w h coords)"
    if "letter \<in> set ''ltmqc''"
  proof -
    have "(\<lambda>(xReal, yReal). F xReal yReal)
            = (\<lambda>(xReal, yReal).
                  [Num (width (size_conv converter xReal yReal)),
                   Str '','',
                   Num (- height (size_conv converter xReal yReal))])"
      using lower [OF that] by (intro ext) (auto simp add: F_def)
    then show ?thesis
      by (simp only: g)
  qed
  have u: "parseAttributes_pathPairs converter w h letter coords
        = map_option
            (\<lambda>nums. Str [letter] #
               concat (joinWith [Str '' '']
                 (map (\<lambda>(xReal, yReal).
                        [Num (x (point converter xReal yReal) - x (point converter 0 0)),
                         Str '','',
                         Num (y (point converter xReal yReal) - y (point converter 0 0))])
                      nums)))
            (pairValues w h coords)"
    if "letter \<in> set ''LTMQC''"
  proof -
    have "(\<lambda>(xReal, yReal). F xReal yReal)
            = (\<lambda>(xReal, yReal).
                  [Num (x (point converter xReal yReal) - x (point converter 0 0)),
                   Str '','',
                   Num (y (point converter xReal yReal) - y (point converter 0 0))])"
      using upper [OF that] by (intro ext) (auto simp add: F_def)
    then show ?thesis
      by (simp only: g)
  qed
  show ?thesis
    using l u pairValues_numerals [of coords w h] by blast
qed

theorem pathPairs_relative_negated_absolute_not_witness:
  "CHR ''l'' \<in> set ''ltmqc'' \<and> CHR ''L'' \<in> set ''LTMQC''
   \<and> numeralAt ''10'' = Some ''10'' \<and> numeralAt ''20'' = Some ''20''
   \<and> numeralAt ''-3'' = Some ''-3'' \<and> numeralAt ''.5'' = Some ''.5''
   \<and> pairValues 100 100 [(''10'', ''20''), (''-3'', ''.5'')] = Some [(10, 20), (- 3, 1 / 2)]
   \<and> parseAttributes_pathPairs (defaultConverter 100) 100 100 (CHR ''l'')
        [(''10'', ''20''), (''-3'', ''.5'')]
      = Some [Str ''l'', Num 10, Str '','', Num (- 20), Str '' '',
              Num (- 3), Str '','', Num (- (1 / 2))]
   \<and> parseAttributes_pathPairs (defaultConverter 100) 100 100 (CHR ''L'')
        [(''10'', ''20''), (''-3'', ''.5'')]
      = Some [Str ''L'', Num 10, Str '','', Num (- 20), Str '' '',
              Num (- 3), Str '','', Num (- (1 / 2))]"
proof -
  have l: "CHR ''l'' \<in> set ''ltmqc''" and u: "CHR ''L'' \<in> set ''LTMQC''"
    by simp_all
  have nm: "\<forall>(a, b) \<in> set [(''10'', ''20''), (''-3'', ''.5'')].
              numeralAt a = Some a \<and> numeralAt b = Some b"
    by (simp add: numeralAt_def isDigit_def)
  have n: "parseFloatValue (Some ''10'') 100 = Some (Some 10)"
      "parseFloatValue (Some ''20'') 100 = Some (Some 20)"
      "parseFloatValue (Some ''-3'') 100 = Some (Some (- 3))"
      "parseFloatValue (Some ''.5'') 100 = Some (Some (1 / 2))"
    by (simp_all add: parse_defs)
  have pv: "pairValues 100 100 [(''10'', ''20''), (''-3'', ''.5'')] = Some [(10, 20), (- 3, 1 / 2)]"
    by (simp add: pairValues_def n orZero_def)
  from pathPairs_relative_negated_absolute_not
         [of "CHR ''l''" "defaultConverter 100" 100 100 "[(''10'', ''20''), (''-3'', ''.5'')]"]
       pathPairs_relative_negated_absolute_not
         [of "CHR ''L''" "defaultConverter 100" 100 100 "[(''10'', ''20''), (''-3'', ''.5'')]"]
       l u
  have r: "parseAttributes_pathPairs (defaultConverter 100) 100 100 (CHR ''l'')
        [(''10'', ''20''), (''-3'', ''.5'')]
      = Some [Str ''l'', Num 10, Str '','', Num (- 20), Str '' '',
              Num (- 3), Str '','', Num (- (1 / 2))]
   \<and> parseAttributes_pathPairs (defaultConverter 100) 100 100 (CHR ''L'')
        [(''10'', ''20''), (''-3'', ''.5'')]
      = Some [Str ''L'', Num 10, Str '','', Num (- 20), Str '' '',
              Num (- 3), Str '','', Num (- (1 / 2))]"
    by (simp add: pv defaultConverter_def)
  have na: "numeralAt ''10'' = Some ''10''" "numeralAt ''20'' = Some ''20''"
      "numeralAt ''-3'' = Some ''-3''" "numeralAt ''.5'' = Some ''.5''"
    using nm by simp_all
  from l u na pv r show ?thesis
    by (intro conjI) simp_all
qed


section \<open>Theorems: transforms given as attributes\<close>














lemma allSome_append:
  "allSome (us @ vs) = Some zs \<Longrightarrow>
     \<exists>as bs. allSome us = Some as \<and> allSome vs = Some bs \<and> zs = as @ bs"
  by (induction us arbitrary: zs) (auto split: option.splits)















end
